theory Spec2Isabelle
  imports Complex_Main
begin

section \<open>Numbers, text formatting and errors of the notebook\<close>

text \<open>
  The program is the notebook \<open>tutorial/2_data_prep.ipynb\<close>: seven code cells that run
  top to bottom over one kernel namespace and one working directory. A Python float is
  modelled by its exact value, a real number; the rounding of float arithmetic is
  not modelled. Times (\<open>UTCDateTime\<close>) are seconds, as reals.
\<close>

datatype error =
    NameError string
  | KeyError string
  | IndexError
  | TypeError
  | ZeroDivisionError
  | FileNotFoundError string
  | LibraryError string

text \<open>Sequencing of fallible steps: the first raise ends the cell.\<close>

definition and_then :: "error + 'a \<Rightarrow> ('a \<Rightarrow> error + 'b) \<Rightarrow> error + 'b" where
  "and_then r f = (case r of Inl e \<Rightarrow> Inl e | Inr x \<Rightarrow> f x)"

text \<open>Python's \<open>round(x)\<close> on a float: to the nearest integer, a tie to the even one.\<close>

definition py_round :: "real \<Rightarrow> int" where
  "py_round x =
     (let f = \<lfloor>x\<rfloor>; r = x - of_int f
      in if r < 1 / 2 then f
         else if 1 / 2 < r then f + 1
         else if even f then f else f + 1)"

text \<open>Python's \<open>int(x)\<close> on a float: truncation towards zero.\<close>

definition py_int :: "real \<Rightarrow> int" where
  "py_int x = (if 0 \<le> x then \<lfloor>x\<rfloor> else \<lceil>x\<rceil>)"

text \<open>Decimal digits of a natural number, and the format \<open>d\<close> of an \<open>int\<close>.\<close>

definition digit_char :: "nat \<Rightarrow> char" where
  "digit_char n = ''0123456789'' ! (n mod 10)"

fun str_nat :: "nat \<Rightarrow> string" where
  "str_nat n =
     (if n < 10 then [digit_char n]
      else str_nat (n div 10) @ [digit_char (n mod 10)])"

declare str_nat.simps [simp del]

definition fmt_d :: "int \<Rightarrow> string" where
  "fmt_d i = (if i < 0 then CHR ''-'' # str_nat (nat (- i)) else str_nat (nat i))"

text \<open>
  The formats \<open>%.nf\<close> and \<open>{:.nf}\<close>: the value rounded to \<open>n\<close> decimals (a tie to the
  even digit, on the exact value), the fraction zero-padded to \<open>n\<close> digits, no decimal
  point when \<open>n = 0\<close>. An \<open>int\<close> argument is converted to float first, so it takes the
  same path.
\<close>

definition zero_pad :: "nat \<Rightarrow> string \<Rightarrow> string" where
  "zero_pad n s = replicate (n - length s) CHR ''0'' @ s"

definition fmt_f :: "nat \<Rightarrow> real \<Rightarrow> string" where
  "fmt_f n x =
     (let q = nat (py_round (\<bar>x\<bar> * 10 ^ n));
          body = str_nat (q div 10 ^ n) @
                 (if n = 0 then [] else CHR ''.'' # zero_pad n (str_nat (q mod 10 ^ n)))
      in if x < 0 then CHR ''-'' # body else body)"

section \<open>Cell 3: processing parameters\<close>

text \<open>
  \<open>vred\<close> is \<open>None\<close> when the variable holds Python's \<open>None\<close> (unset); the notebook
  sets it to \<open>0\<close>.
\<close>

record params =
  freqmin :: real
  freqmax :: real
  corners :: nat
  dt :: real
  vred :: "real option"
  time_before :: real
  time_after :: real

definition notebook_params :: params where
  "notebook_params =
     \<lparr> freqmin = 2 / 100, freqmax = 5 / 100, corners = 3, dt = 1, vred = Some 0,
       time_before = 30, time_after = 200 \<rparr>"

section \<open>Tables, traces and the working directory\<close>

text \<open>
  A row of \<open>datetime.csv\<close> and a row of \<open>station.csv\<close>, as \<open>pandas.read_csv\<close> gives
  them. The origin time is the value \<open>UTCDateTime(df['origin'][0])\<close>.
\<close>

record event_row =
  ev_origin :: real
  ev_lon :: real
  ev_lat :: real
  ev_depth :: real

record station_row =
  network :: string
  station :: string
  location :: string
  channel :: string
  component :: string
  distance :: real
  azimuth :: real
  longitude :: real
  latitude :: real

text \<open>
  An ObsPy trace: \<open>tr.id\<close>, the fields of \<open>tr.stats\<close> the notebook reads or writes, and
  \<open>tr.data\<close>.
\<close>

record trace =
  trace_id :: string
  sampling_rate :: real
  starttime :: real
  samples :: "real list"
  sac_dist :: real
  sac_t1 :: "real option"
  sac_b :: real
  sac_o :: real

text \<open>
  The working directory: the directories that exist, the SAC files, the text files and
  the two tables, each by its path.
\<close>

record disk =
  dirs :: "string set"
  sacs :: "string \<rightharpoonup> trace"
  texts :: "string \<rightharpoonup> string"
  event_tables :: "string \<rightharpoonup> event_row list"
  station_tables :: "string \<rightharpoonup> station_row list"

text \<open>
  The signal processing of ObsPy is not part of the notebook: each routine is a
  parameter, and may raise. \<open>bandpass\<close> takes \<open>freqmin\<close>, \<open>freqmax\<close>, \<open>corners\<close> and
  \<open>zerophase\<close>; \<open>taper\<close> takes \<open>max_percentage\<close>; \<open>decimate\<close> the factor; \<open>resample\<close> the
  new rate; \<open>trim\<close> the two ends, always called with \<open>pad=True, fill_value=0\<close>;
  \<open>read_pattern\<close> is \<open>read\<close> on a path with a character class.
\<close>

record obspy =
  bandpass :: "real \<Rightarrow> real \<Rightarrow> nat \<Rightarrow> bool \<Rightarrow> trace \<Rightarrow> error + trace"
  taper :: "real \<Rightarrow> trace \<Rightarrow> error + trace"
  decimate :: "int \<Rightarrow> trace \<Rightarrow> error + trace"
  resample :: "real \<Rightarrow> trace \<Rightarrow> error + trace"
  trim :: "real \<Rightarrow> real \<Rightarrow> trace \<Rightarrow> error + trace"
  read_pattern :: "disk \<Rightarrow> string \<Rightarrow> error + trace list"

text \<open>
  The kernel: the working directory, what was printed, the command lines handed to
  \<open>os.system\<close>, and the global variables the cells bind (\<open>None\<close>: not bound yet). A cell
  that raises is the value \<open>Inl\<close>; what it had changed before the raise is not kept.
\<close>

record notebook =
  world :: disk
  stdout :: "string list"
  calls :: "string list"
  df :: "event_row list option"
  station_df :: "station_row list option"
  origin_time :: "real option"
  st :: "trace list option"
  tr :: "trace option"

definition fresh :: "disk \<Rightarrow> notebook" where
  "fresh d =
     \<lparr> world = d, stdout = [], calls = [], df = None, station_df = None,
       origin_time = None, st = None, tr = None \<rparr>"

text \<open>A \<open>for\<close> loop over a list whose body may raise.\<close>

fun run_each :: "('a \<Rightarrow> 's \<Rightarrow> error + 's) \<Rightarrow> 'a list \<Rightarrow> 's \<Rightarrow> error + 's" where
  "run_each f [] s = Inr s"
| "run_each f (x # xs) s = (case f x s of Inl e \<Rightarrow> Inl e | Inr s' \<Rightarrow> run_each f xs s')"

text \<open>\<open>Stream.filter\<close> and \<open>Stream.taper\<close>: the routine on every trace, in order.\<close>

fun for_each :: "('a \<Rightarrow> error + 'b) \<Rightarrow> 'a list \<Rightarrow> error + 'b list" where
  "for_each f [] = Inr []"
| "for_each f (x # xs) =
     (case f x of Inl e \<Rightarrow> Inl e
      | Inr y \<Rightarrow> (case for_each f xs of Inl e \<Rightarrow> Inl e | Inr ys \<Rightarrow> Inr (y # ys)))"

text \<open>
  \<open>read(path, format='SAC')\<close> on a plain path, and \<open>write(path, format='SAC')\<close>.
  \<open>write_sac\<close> is the write into a directory that exists: cell 5 makes \<open>green_dir\<close>
  and its parents (line 187) before it opens or writes any file. The file holds the trace
  as it is in memory; how the SAC writer of ObsPy encodes the header fields is not
  modelled. \<open>write_into\<close> is the write of cell 4, into a directory that nothing has
  made: \<open>FileNotFoundError\<close> when it is absent.
\<close>

definition read_sac :: "disk \<Rightarrow> string \<Rightarrow> error + trace" where
  "read_sac d path =
     (case sacs d path of None \<Rightarrow> Inl (FileNotFoundError path) | Some t \<Rightarrow> Inr t)"

definition write_sac :: "string \<Rightarrow> trace \<Rightarrow> disk \<Rightarrow> disk" where
  "write_sac path t d = d\<lparr>sacs := (sacs d)(path \<mapsto> t)\<rparr>"

definition write_into :: "string \<Rightarrow> string \<Rightarrow> trace \<Rightarrow> disk \<Rightarrow> error + disk" where
  "write_into dir path t d =
     (if dir \<in> dirs d then Inr (write_sac path t d) else Inl (FileNotFoundError path))"

section \<open>Cell 2: reading the event\<close>

text \<open>
  \<^verbatim>\<open>
  evid = '40191336'
  event_dir = evid
  infile = '%s/datetime.csv'%event_dir
  station_file = '%s/station.csv'%event_dir
  sacdir = '%s/sac'%event_dir
  outdir = '%s'%event_dir
  P = Path(sacdir)
  if P.exists():
      df = pd.read_csv(infile,parse_dates=True)
      station_df = pd.read_csv('%s'%(station_file),...)
      origin_time = UTCDateTime(df['origin'][0])
      st = Stream()
      for _,row in station_df.iterrows():
          st += read('%s/%s.%s.%s.%s[%s]'%(
              sacdir,row.network,row.station,row.location,row.channel,row.component),format='SAC')
  else:
      print('Directory %s does not exist. %s does not have instrument corrected data.'%(sacdir,evid))
  \<close>
\<close>

definition event_dir :: "string \<Rightarrow> string" where
  "event_dir evid = evid"

definition infile :: "string \<Rightarrow> string" where
  "infile evid = event_dir evid @ ''/datetime.csv''"

definition station_file :: "string \<Rightarrow> string" where
  "station_file evid = event_dir evid @ ''/station.csv''"

definition sacdir :: "string \<Rightarrow> string" where
  "sacdir evid = event_dir evid @ ''/sac''"

definition outdir :: "string \<Rightarrow> string" where
  "outdir evid = event_dir evid"

definition path_exists :: "disk \<Rightarrow> string \<Rightarrow> bool" where
  "path_exists d p =
     (p \<in> dirs d \<or> sacs d p \<noteq> None \<or> texts d p \<noteq> None \<or>
      event_tables d p \<noteq> None \<or> station_tables d p \<noteq> None)"

definition read_event_csv :: "disk \<Rightarrow> string \<Rightarrow> error + event_row list" where
  "read_event_csv d path =
     (case event_tables d path of None \<Rightarrow> Inl (FileNotFoundError path) | Some rows \<Rightarrow> Inr rows)"

definition read_station_csv :: "disk \<Rightarrow> string \<Rightarrow> error + station_row list" where
  "read_station_csv d path =
     (case station_tables d path of None \<Rightarrow> Inl (FileNotFoundError path) | Some rows \<Rightarrow> Inr rows)"

text \<open>\<open>df[column][0]\<close>: the first row of the event table, \<open>KeyError\<close> on an empty table.\<close>

definition first_row :: "event_row list \<Rightarrow> error + event_row" where
  "first_row ev = (case ev of [] \<Rightarrow> Inl (KeyError ''0'') | e # _ \<Rightarrow> Inr e)"

definition sac_pattern :: "string \<Rightarrow> station_row \<Rightarrow> string" where
  "sac_pattern dir row =
     dir @ ''/'' @ network row @ ''.'' @ station row @ ''.'' @ location row @ ''.'' @
     channel row @ ''['' @ component row @ '']''"

definition read_station :: "obspy \<Rightarrow> disk \<Rightarrow> string \<Rightarrow> station_row \<Rightarrow> trace list \<Rightarrow> error + trace list" where
  "read_station L d dir row acc =
     and_then (read_pattern L d (sac_pattern dir row)) (\<lambda>found. Inr (acc @ found))"

definition missing_message :: "string \<Rightarrow> string" where
  "missing_message evid =
     ''Directory '' @ sacdir evid @ '' does not exist. '' @ evid @
     '' does not have instrument corrected data.''"

definition cell_load :: "obspy \<Rightarrow> string \<Rightarrow> notebook \<Rightarrow> error + notebook" where
  "cell_load L evid s =
     (if path_exists (world s) (sacdir evid) then
        and_then (read_event_csv (world s) (infile evid)) (\<lambda>ev.
        and_then (read_station_csv (world s) (station_file evid)) (\<lambda>rows.
        and_then (first_row ev) (\<lambda>e.
        and_then (run_each (read_station L (world s) (sacdir evid)) rows []) (\<lambda>found.
          Inr (s\<lparr>df := Some ev, station_df := Some rows,
                  origin_time := Some (ev_origin e), st := Some found\<rparr>)))))
      else Inr (s\<lparr>stdout := stdout s @ [missing_message evid]\<rparr>))"

section \<open>Cell 4: the reference time\<close>

text \<open>
  \<^verbatim>\<open>
  if vred:
      p = 1/vred
  else:
      p = 0
  ...
  tr.stats.sac.t1 = origin_time + p*(tr.stats.sac.dist)
  \<close>
  \<open>None\<close> and \<open>0\<close> are both false in the test \<open>if vred\<close>.
\<close>

definition slowness_p :: "real option \<Rightarrow> real" where
  "slowness_p v = (case v of None \<Rightarrow> 0 | Some w \<Rightarrow> if w \<noteq> 0 then 1 / w else 0)"

definition reference_t1 :: "real \<Rightarrow> real option \<Rightarrow> real \<Rightarrow> real" where
  "reference_t1 origin v km = origin + slowness_p v * km"

section \<open>Cell 4: conditioning the observed traces\<close>

text \<open>
  \<^verbatim>\<open>
  st.filter('bandpass',freqmin=freqmin,freqmax=freqmax,corners=corners,zerophase=True)
  st.taper(max_percentage=0.05)
  for tr in st:
      tr.decimate(factor=int(tr.stats.sampling_rate*dt),strict_length=False,no_filter=True)
      tr.resample(1/dt, strict_length=False, no_filter=True)
      tr.stats.sac.t1 = origin_time + p*(tr.stats.sac.dist)
      tr.trim(tr.stats.sac.t1-time_before,tr.stats.sac.t1+time_after,pad=True,fill_value=0)
      tr.data = 100*tr.data
      tr.stats.sac.b = -1*(origin_time - tr.stats.starttime)
      tr.stats.sac.o = 0
      sacout = '%s/%s.%s.dat'%(outdir,tr.id[:-4],tr.id[-1])
      tr.write(sacout,format='SAC')
  \<close>
\<close>

definition new_rate :: "params \<Rightarrow> error + real" where
  "new_rate P = (if dt P = 0 then Inl ZeroDivisionError else Inr (1 / dt P))"

definition condition_trace :: "obspy \<Rightarrow> params \<Rightarrow> real option \<Rightarrow> trace \<Rightarrow> error + trace" where
  "condition_trace L P bound_origin a =
     and_then (decimate L (py_int (sampling_rate a * dt P)) a) (\<lambda>a1.
     and_then (new_rate P) (\<lambda>rate.
     and_then (resample L rate a1) (\<lambda>a2.
       case bound_origin of
         None \<Rightarrow> Inl (NameError ''origin_time'')
       | Some origin \<Rightarrow>
           let ref = reference_t1 origin (vred P) (sac_dist a2);
               a3 = a2\<lparr>sac_t1 := Some ref\<rparr>
           in and_then (trim L (ref - time_before P) (ref + time_after P) a3) (\<lambda>a4.
                let a5 = a4\<lparr>samples := map (\<lambda>x. 100 * x) (samples a4)\<rparr>;
                    a6 = a5\<lparr>sac_b := - 1 * (origin - starttime a5)\<rparr>
                in Inr (a6\<lparr>sac_o := 0\<rparr>)))))"

text \<open>
  The file name \<open>'%s/%s.%s.dat'%(outdir,tr.id[:-4],tr.id[-1])\<close>: the identifier without
  its last four characters, then its last character (\<open>IndexError\<close> on an empty one).
\<close>

definition sacout_path :: "string \<Rightarrow> trace \<Rightarrow> error + string" where
  "sacout_path dir a =
     (if trace_id a = [] then Inl IndexError
      else Inr (dir @ ''/'' @ take (length (trace_id a) - 4) (trace_id a) @ ''.'' @
                [last (trace_id a)] @ ''.dat''))"

text \<open>
  One turn of the loop: the state is the kernel and the traces of \<open>st\<close> altered so far.
  The loop variable \<open>tr\<close> is a global of the kernel, and stays bound after the loop.
\<close>

definition condition_step ::
    "obspy \<Rightarrow> params \<Rightarrow> string \<Rightarrow> trace \<Rightarrow> notebook \<times> trace list \<Rightarrow> error + notebook \<times> trace list" where
  "condition_step L P evid a sa =
     (case sa of (s, acc) \<Rightarrow>
        and_then (condition_trace L P (origin_time s) a) (\<lambda>a'.
        and_then (sacout_path (outdir evid) a') (\<lambda>path.
        and_then (write_into (outdir evid) path a' (world s)) (\<lambda>w.
          Inr (s\<lparr>world := w, tr := Some a'\<rparr>, acc @ [a'])))))"

definition cell_condition :: "obspy \<Rightarrow> params \<Rightarrow> string \<Rightarrow> notebook \<Rightarrow> error + notebook" where
  "cell_condition L P evid s =
     (case st s of
        None \<Rightarrow> Inl (NameError ''st'')
      | Some trs \<Rightarrow>
          and_then (for_each (bandpass L (freqmin P) (freqmax P) (corners P) True) trs) (\<lambda>fs.
          and_then (for_each (taper L (5 / 100)) fs) (\<lambda>tp.
          and_then (run_each (condition_step L P evid) tp (s, [])) (\<lambda>sa.
            Inr ((fst sa)\<lparr>st := Some (snd sa)\<rparr>)))))"

section \<open>Cell 5: the candidate depths\<close>

text \<open>
  \<^verbatim>\<open>depths = sorted([10,20,round(df['depth'][0])])\<close>
  A Python list, sorted: it keeps every element.
\<close>

definition depths :: "real \<Rightarrow> int list" where
  "depths catalog_depth = sort [10, 20, py_round catalog_depth]"

text \<open>
  \<^verbatim>\<open>
  model = 'gil7'
  npts = int(256) # number of points in the time series, must be a power of 2
  t0 = int(0)
  green_dir = '%s/%s'%(event_dir,model)
  Path(green_dir).mkdir(parents=True,exist_ok=True)
  \<close>
\<close>

record fk_params =
  model :: string
  npts :: int
  t0 :: int

definition notebook_fk :: fk_params where
  "notebook_fk = \<lparr> model = ''gil7'', npts = 256, t0 = 0 \<rparr>"

definition green_dir :: "string \<Rightarrow> fk_params \<Rightarrow> string" where
  "green_dir evid F = event_dir evid @ ''/'' @ model F"

definition mkdir_parents :: "string \<Rightarrow> fk_params \<Rightarrow> disk \<Rightarrow> disk" where
  "mkdir_parents evid F d = d\<lparr>dirs := insert (green_dir evid F) (insert (event_dir evid) (dirs d))\<rparr>"

subsection \<open>The distance file\<close>

text \<open>
  \<^verbatim>\<open>
  dfile = ('{dist:.0f} {dt:.2f} {npts:d} {t0:d} {vred:.1f}\n')
  dfile_out = '%s/dfile'%event_dir
  with open(dfile_out,'w') as f:
      for _,row in station_df.iterrows():
          f.write(dfile.format(dist=row.distance,dt=dt,npts=npts,t0=t0,vred=vred))
  \<close>
  \<open>open(path,'w')\<close> empties the file; each \<open>f.write\<close> adds to its end. Formatting
  \<open>None\<close> with \<open>.1f\<close> raises \<open>TypeError\<close>.
\<close>

definition dfile_out :: "string \<Rightarrow> string" where
  "dfile_out evid = event_dir evid @ ''/dfile''"

definition dfile_line :: "params \<Rightarrow> fk_params \<Rightarrow> station_row \<Rightarrow> error + string" where
  "dfile_line P F row =
     (case vred P of
        None \<Rightarrow> Inl TypeError
      | Some v \<Rightarrow>
          Inr (fmt_f 0 (distance row) @ '' '' @ fmt_f 2 (dt P) @ '' '' @ fmt_d (npts F) @ '' '' @
               fmt_d (t0 F) @ '' '' @ fmt_f 1 v @ [CHR 0x0A]))"

definition open_w :: "string \<Rightarrow> disk \<Rightarrow> disk" where
  "open_w path d = d\<lparr>texts := (texts d)(path \<mapsto> [])\<rparr>"

definition file_write :: "string \<Rightarrow> string \<Rightarrow> disk \<Rightarrow> disk" where
  "file_write path line d =
     d\<lparr>texts := (texts d)(path \<mapsto> (case texts d path of None \<Rightarrow> [] | Some old \<Rightarrow> old) @ line)\<rparr>"

definition write_row :: "params \<Rightarrow> fk_params \<Rightarrow> string \<Rightarrow> station_row \<Rightarrow> disk \<Rightarrow> error + disk" where
  "write_row P F path row d = and_then (dfile_line P F row) (\<lambda>line. Inr (file_write path line d))"

definition build_dfile ::
    "params \<Rightarrow> fk_params \<Rightarrow> string \<Rightarrow> station_row list option \<Rightarrow> disk \<Rightarrow> error + disk" where
  "build_dfile P F path table d =
     (let d0 = open_w path d
      in case table of
           None \<Rightarrow> Inl (NameError ''station_df'')
         | Some rows \<Rightarrow> run_each (write_row P F path) rows d0)"

subsection \<open>The modelling programs\<close>

text \<open>
  \<^verbatim>\<open>
  os.system('hprep96 -M %s.d -d %s -HS %.4f -HR 0 -EQEX'%(model,dfile_out,depth))
  os.system('hspec96')
  os.system('hpulse96 -D -i > file96')
  os.system('f96tosac -B file96')
  \<close>
  The shell is a parameter: a command line and the working directory give an exit code
  and the working directory after the command. \<open>os.system\<close> returns the exit code; the
  notebook drops it.
\<close>

type_synonym shell = "string \<Rightarrow> disk \<Rightarrow> int \<times> disk"

definition os_system :: "shell \<Rightarrow> string \<Rightarrow> notebook \<Rightarrow> int \<times> notebook" where
  "os_system sh cmd s =
     (case sh cmd (world s) of (rc, d') \<Rightarrow> (rc, s\<lparr>world := d', calls := calls s @ [cmd]\<rparr>))"

definition hprep96_cmd :: "fk_params \<Rightarrow> string \<Rightarrow> int \<Rightarrow> string" where
  "hprep96_cmd F dfile d =
     ''hprep96 -M '' @ model F @ ''.d -d '' @ dfile @ '' -HS '' @ fmt_f 4 (of_int d) @
     '' -HR 0 -EQEX''"

definition job_cmds :: "fk_params \<Rightarrow> string \<Rightarrow> int \<Rightarrow> string list" where
  "job_cmds F evid d =
     [hprep96_cmd F (dfile_out evid) d, ''hspec96'', ''hpulse96 -D -i > file96'',
      ''f96tosac -B file96'']"

definition run_engine :: "shell \<Rightarrow> fk_params \<Rightarrow> string \<Rightarrow> int \<Rightarrow> notebook \<Rightarrow> notebook" where
  "run_engine sh F evid d s =
     (let s1 = snd (os_system sh (hprep96_cmd F (dfile_out evid) d) s);
          s2 = snd (os_system sh ''hspec96'' s1);
          s3 = snd (os_system sh ''hpulse96 -D -i > file96'' s2)
      in snd (os_system sh ''f96tosac -B file96'' s3))"

subsection \<open>Filtering the synthetics\<close>

text \<open>
  \<^verbatim>\<open>
  greens = ('ZDD','RDD','ZDS','RDS','TDS','ZSS','RSS','TSS','ZEX','REX')
  for index,row in station_df.iterrows():
      for j,grn in enumerate(greens):
          sacin = '%s/%s.%s.dat'%(outdir,tr.id[:-4],tr.id[-1])
          sacout = '%s/%s.%s.%s.%.4f'%(green_dir,row.network,row.station,row.location,depth)
          tmp = read(sacin,format='SAC')
          tmp.filter('bandpass',freqmin=freqmin,freqmax=freqmax,corners=corners,zerophase=True)
          tmp.write('%s.%s'%(sacout,grn),format='SAC') # overwrite
  \<close>
  \<open>tr\<close> is the global that the loop of cell 4 left bound.
\<close>

definition greens :: "string list" where
  "greens = [''ZDD'', ''RDD'', ''ZDS'', ''RDS'', ''TDS'', ''ZSS'', ''RSS'', ''TSS'', ''ZEX'', ''REX'']"

definition sacin_path :: "string \<Rightarrow> trace \<Rightarrow> error + string" where
  "sacin_path dir a =
     (if trace_id a = [] then Inl IndexError
      else Inr (dir @ ''/'' @ take (length (trace_id a) - 4) (trace_id a) @ ''.'' @
                [last (trace_id a)] @ ''.dat''))"

definition green_sacout :: "string \<Rightarrow> station_row \<Rightarrow> int \<Rightarrow> string" where
  "green_sacout dir row d =
     dir @ ''/'' @ network row @ ''.'' @ station row @ ''.'' @ location row @ ''.'' @
     fmt_f 4 (of_int d)"

definition filter_green ::
    "obspy \<Rightarrow> params \<Rightarrow> fk_params \<Rightarrow> string \<Rightarrow> int \<Rightarrow> station_row \<Rightarrow> string \<Rightarrow> notebook \<Rightarrow> error + notebook" where
  "filter_green L P F evid d row grn s =
     (case tr s of
        None \<Rightarrow> Inl (NameError ''tr'')
      | Some a \<Rightarrow>
          and_then (sacin_path (outdir evid) a) (\<lambda>sacin.
          and_then (read_sac (world s) sacin) (\<lambda>tmp.
          and_then (bandpass L (freqmin P) (freqmax P) (corners P) True tmp) (\<lambda>tmp'.
            Inr (s\<lparr>world :=
                    write_sac (green_sacout (green_dir evid F) row d @ ''.'' @ grn) tmp' (world s)\<rparr>)))))"

definition filter_station ::
    "obspy \<Rightarrow> params \<Rightarrow> fk_params \<Rightarrow> string \<Rightarrow> int \<Rightarrow> station_row \<Rightarrow> notebook \<Rightarrow> error + notebook" where
  "filter_station L P F evid d row s = run_each (filter_green L P F evid d row) greens s"

subsection \<open>One depth, and the cell\<close>

definition depth_job ::
    "obspy \<Rightarrow> shell \<Rightarrow> params \<Rightarrow> fk_params \<Rightarrow> string \<Rightarrow> int \<Rightarrow> notebook \<Rightarrow> error + notebook" where
  "depth_job L sh P F evid d s =
     and_then (build_dfile P F (dfile_out evid) (station_df s) (world s)) (\<lambda>d1.
       let s5 = run_engine sh F evid d (s\<lparr>world := d1\<rparr>)
       in case station_df s5 of
            None \<Rightarrow> Inl (NameError ''station_df'')
          | Some rows \<Rightarrow> run_each (filter_station L P F evid d) rows s5)"

text \<open>
  \<^verbatim>\<open>
  for depth in depths:
      ...
  os.system('rm B*.sac') # remove the unfiltered SAC files
  \<close>
\<close>

definition cell_greens ::
    "obspy \<Rightarrow> shell \<Rightarrow> params \<Rightarrow> fk_params \<Rightarrow> string \<Rightarrow> notebook \<Rightarrow> error + notebook" where
  "cell_greens L sh P F evid s =
     (case df s of
        None \<Rightarrow> Inl (NameError ''df'')
      | Some ev \<Rightarrow>
          and_then (first_row ev) (\<lambda>e.
            let s0 = s\<lparr>world := mkdir_parents evid F (world s)\<rparr>
            in and_then (run_each (depth_job L sh P F evid) (depths (ev_depth e)) s0) (\<lambda>s1.
                 Inr (snd (os_system sh ''rm B*.sac'' s1)))))"

section \<open>The run\<close>


section \<open>Cell 6: the station table of the manifest\<close>

text \<open>
  \<^verbatim>\<open>
  frame = {'station': station_df[['network','station','location']].apply(lambda x: '.'.join(x),axis=1)}
  df_out = pd.DataFrame(frame)
  df_out[['distance','azimuth']] = station_df[['distance','azimuth']]
  df_out['ts'] = int(30)
  df_out['npts'] = int(150)
  df_out['dt'] = dt
  df_out['used'] = 1
  df_out[['longitude','latitude']] = station_df[['longitude','latitude']]
  \<close>
\<close>

record manifest_row =
  out_station :: string
  out_distance :: real
  out_azimuth :: real
  out_ts :: int
  out_npts :: int
  out_dt :: real
  out_used :: int
  out_longitude :: real
  out_latitude :: real

definition df_out_row :: "params \<Rightarrow> station_row \<Rightarrow> manifest_row" where
  "df_out_row P row =
     \<lparr> out_station = network row @ ''.'' @ station row @ ''.'' @ location row,
       out_distance = distance row, out_azimuth = azimuth row,
       out_ts = 30, out_npts = 150, out_dt = dt P, out_used = 1,
       out_longitude = longitude row, out_latitude = latitude row \<rparr>"

definition df_out :: "params \<Rightarrow> station_row list \<Rightarrow> manifest_row list" where
  "df_out P rows = map (df_out_row P) rows"

section \<open>Notions used in the statements\<close>

text \<open>
  The line of the distance file for one station when \<open>vred\<close> is the number \<open>v\<close>, as the
  format string \<open>{dist:.0f} {dt:.2f} {npts:d} {t0:d} {vred:.1f}\n\<close> spells it.
\<close>

definition line_text :: "params \<Rightarrow> fk_params \<Rightarrow> real \<Rightarrow> station_row \<Rightarrow> string" where
  "line_text P F v row =
     fmt_f 0 (distance row) @ '' '' @ fmt_f 2 (dt P) @ '' '' @ fmt_d (npts F) @ '' '' @
     fmt_d (t0 F) @ '' '' @ fmt_f 1 v @ [CHR 0x0A]"

text \<open>
  The names under which cell 5 saves the ten components of one station at one depth, the
  same for a whole station table, and a trace saved under each name of a list.
\<close>

definition green_files :: "string \<Rightarrow> fk_params \<Rightarrow> int \<Rightarrow> station_row \<Rightarrow> string list" where
  "green_files evid F d row = map (\<lambda>grn. green_sacout (green_dir evid F) row d @ ''.'' @ grn) greens"

definition all_green_files :: "string \<Rightarrow> fk_params \<Rightarrow> int \<Rightarrow> station_row list \<Rightarrow> string list" where
  "all_green_files evid F d rows = concat (map (green_files evid F d) rows)"

definition write_all :: "string list \<Rightarrow> trace \<Rightarrow> disk \<Rightarrow> disk" where
  "write_all qs a w = fold (\<lambda>q. write_sac q a) qs w"

text \<open>The SAC file a kernel has under a path.\<close>

definition saved :: "string \<Rightarrow> notebook \<Rightarrow> trace option" where
  "saved q s = sacs (world s) q"

section \<open>Example data\<close>

text \<open>
  A stand-in for ObsPy whose routines all succeed: \<open>bandpass\<close> halves the samples,
  \<open>decimate\<close> and \<open>resample\<close> set the rate, \<open>trim\<close> moves the start of the trace to the
  requested time. A shell whose every command returns exit code 1 and leaves the working
  directory as it was.
\<close>

definition stub_obspy :: obspy where
  "stub_obspy =
     \<lparr> bandpass = (\<lambda>lo hi n z a. Inr (a\<lparr>samples := map (\<lambda>x. x / 2) (samples a)\<rparr>)),
       taper = (\<lambda>m a. Inr a),
       decimate = (\<lambda>k a. if k \<le> 0 then Inl (LibraryError ''decimate'')
                            else Inr (a\<lparr>sampling_rate := sampling_rate a / of_int k\<rparr>)),
       resample = (\<lambda>r a. Inr (a\<lparr>sampling_rate := r\<rparr>)),
       trim = (\<lambda>lo hi a. Inr (a\<lparr>starttime := lo\<rparr>)),
       read_pattern = (\<lambda>d pat. Inl (LibraryError pat)) \<rparr>"

definition failing_shell :: shell where
  "failing_shell = (\<lambda>cmd d. (1, d))"

text \<open>
  Two stations of the table printed in the notebook, an event at 13.6 km depth with origin
  time 1000 s, a trace of station QRDG before and after cell 4, and that trace after one
  more pass of \<open>bandpass\<close>.
\<close>

definition qrdg :: station_row where
  "qrdg = \<lparr> network = ''BK'', station = ''QRDG'', location = ''00'', channel = ''BH'',
            component = ''ZRT'', distance = 8099 / 100, azimuth = 33529 / 100,
            longitude = - 12214 / 100, latitude = 3848 / 100 \<rparr>"

definition mccm :: station_row where
  "mccm = \<lparr> network = ''BK'', station = ''MCCM'', location = ''00'', channel = ''BH'',
            component = ''ZRT'', distance = 10512 / 100, azimuth = 29048 / 100,
            longitude = - 12288 / 100, latitude = 3814 / 100 \<rparr>"

definition event0 :: event_row where
  "event0 = \<lparr> ev_origin = 1000, ev_lon = - 12181 / 100, ev_lat = 3782 / 100, ev_depth = 136 / 10 \<rparr>"

definition raw_z :: trace where
  "raw_z = \<lparr> trace_id = ''BK.QRDG.00.BHZ'', sampling_rate = 1, starttime = 990,
             samples = [4, 8], sac_dist = 8099 / 100, sac_t1 = None, sac_b = 0, sac_o = 5 \<rparr>"

definition cond_z :: trace where
  "cond_z = \<lparr> trace_id = ''BK.QRDG.00.BHZ'', sampling_rate = 1, starttime = 970,
             samples = [200, 400], sac_dist = 8099 / 100, sac_t1 = Some 1000, sac_b = - 30, sac_o = 0 \<rparr>"

definition half_z :: trace where
  "half_z = cond_z\<lparr>samples := [100, 200]\<rparr>"

text \<open>
  The trace of station QRDG as the loop body of cell 4 alone leaves it, with \<open>vred = 0\<close>
  and with \<open>vred = 8\<close> km/s.
\<close>

definition anchored_z :: trace where
  "anchored_z = cond_z\<lparr>samples := [400, 800]\<rparr>"

definition reduced_z :: trace where
  "reduced_z =
     \<lparr> trace_id = ''BK.QRDG.00.BHZ'', sampling_rate = 1, starttime = 1000 + 8099 / 800 - 30,
       samples = [400, 800], sac_dist = 8099 / 100, sac_t1 = Some (1000 + 8099 / 800),
       sac_b = 8099 / 800 - 30, sac_o = 0 \<rparr>"

text \<open>
  An empty working directory, one that holds a distance file of an earlier run, the
  directory of event 40191336 with its two tables and one instrument-corrected trace, and
  that directory with its tables but without the subdirectory \<open>sac\<close>. Then
  the kernel once cell 2 has bound its variables, the kernel after cell 4, and the same
  with one file that \<open>f96tosac\<close> would leave, the \<open>TSS\<close> component of the first station.
\<close>

definition disk0 :: disk where
  "disk0 = \<lparr> dirs = {}, sacs = Map.empty, texts = Map.empty, event_tables = Map.empty,
              station_tables = Map.empty \<rparr>"

definition old_dfile :: disk where
  "old_dfile = disk0\<lparr> texts := [''40191336/dfile'' \<mapsto> ''stale line''] \<rparr>"

definition event_disk :: disk where
  "event_disk =
     \<lparr> dirs = {''40191336'', ''40191336/sac''},
       sacs = [''40191336/sac/BK.QRDG.00.BHZ'' \<mapsto> raw_z],
       texts = Map.empty,
       event_tables = [''40191336/datetime.csv'' \<mapsto> [event0]],
       station_tables = [''40191336/station.csv'' \<mapsto> [qrdg]] \<rparr>"


definition loaded :: notebook where
  "loaded = (fresh event_disk)\<lparr> df := Some [event0], station_df := Some [qrdg],
                origin_time := Some 1000, st := Some [raw_z] \<rparr>"

definition conditioned :: notebook where
  "conditioned = loaded\<lparr> world := write_sac ''40191336/BK.QRDG.00.Z.dat'' cond_z event_disk,
                 st := Some [cond_z], tr := Some cond_z \<rparr>"

definition raw_tss :: trace where
  "raw_tss = \<lparr> trace_id = ''.QRDG..TSS'', sampling_rate = 1, starttime = 0,
               samples = [6, 2], sac_dist = 81, sac_t1 = None, sac_b = 0, sac_o = 0 \<rparr>"

definition demuxed :: notebook where
  "demuxed = conditioned\<lparr> world := write_sac ''B00108TSS.sac'' raw_tss (world conditioned) \<rparr>"

section \<open>Properties\<close>

subsection \<open>Sequencing and loops\<close>

lemma and_then_Inr_iff:
  "and_then r f = Inr y \<longleftrightarrow> (\<exists>x. r = Inr x \<and> f x = Inr y)"
  by (cases r) (simp_all add: and_then_def)

lemma and_then_Inr [simp]: "and_then (Inr x) f = f x"
  by (simp add: and_then_def)

lemma and_then_Inl [simp]: "and_then (Inl e) f = Inl e"
  by (simp add: and_then_def)

lemma run_each_invariant:
  assumes "run_each f xs s = Inr s'" and "Q s"
    and "\<And>x u u'. f x u = Inr u' \<Longrightarrow> Q u \<Longrightarrow> Q u'"
  shows "Q s'"
  using assms(1,2)
proof (induction xs arbitrary: s)
  case Nil
  then show ?case by simp
next
  case (Cons x xs)
  from Cons.prems(1) obtain u where u: "f x s = Inr u" and rest: "run_each f xs u = Inr s'"
    by (auto split: sum.splits)
  from assms(3) [OF u Cons.prems(2)] have "Q u" .
  with Cons.IH rest show ?case by blast
qed

subsection \<open>Evaluating the number formats\<close>

lemma replicate_numeral: "replicate (numeral k) x = x # replicate (pred_numeral k) x"
  by (simp add: numeral_eq_Suc)

lemmas fmt_eval = fmt_f_def fmt_d_def py_round_def Let_def str_nat.simps zero_pad_def
  digit_char_def replicate_numeral

lemma fmt_10: "fmt_f 4 10 = ''10.0000''" by (simp add: fmt_eval)

lemma fmt_14: "fmt_f 4 14 = ''14.0000''" by (simp add: fmt_eval)

lemma fmt_20: "fmt_f 4 20 = ''20.0000''" by (simp add: fmt_eval)

lemma digit_char_in: "digit_char n \<in> set ''0123456789''"
  unfolding digit_char_def by (rule nth_mem) simp

lemma str_nat_chars: "set (str_nat n) \<subseteq> set ''0123456789''"
proof (induction n rule: str_nat.induct)
  case (1 n)
  show ?case
  proof (cases "n < 10")
    case True
    then show ?thesis
      using digit_char_in [of n] by (subst str_nat.simps) simp
  next
    case False
    with 1 have "set (str_nat (n div 10)) \<subseteq> set ''0123456789''" by simp
    with False show ?thesis
      using digit_char_in [of "n mod 10"] by (subst str_nat.simps) simp
  qed
qed

lemma newline_not_digit: "CHR 0x0A \<notin> set ''0123456789''"
  by simp

lemma str_nat_no_newline: "CHR 0x0A \<notin> set (str_nat n)"
  using str_nat_chars [of n] newline_not_digit by blast

lemma fmt_d_no_newline: "CHR 0x0A \<notin> set (fmt_d i)"
  by (simp add: fmt_d_def str_nat_no_newline)

lemma fmt_f_no_newline: "CHR 0x0A \<notin> set (fmt_f n x)"
  by (auto simp add: fmt_f_def Let_def zero_pad_def str_nat_no_newline)

subsection \<open>Reference time\<close>

lemma reference_t1_eq:
  "reference_t1 origin None km = origin"
  "reference_t1 origin (Some 0) km = origin"
  "w \<noteq> 0 \<Longrightarrow> reference_t1 origin (Some w) km = origin + km / w"
  by (simp_all add: reference_t1_def slowness_p_def)

subsection \<open>Markers of the conditioned traces\<close>

lemma condition_trace_b_o:
  assumes "condition_trace L P bound a = Inr a'"
  shows "\<exists>origin. bound = Some origin \<and> sac_b a' = - (origin - starttime a') \<and> sac_o a' = 0"
  using assms
  by (auto simp add: condition_trace_def and_then_Inr_iff Let_def split: option.splits)

lemma condition_step_inv:
  assumes "condition_step L P evid a (s, acc) = Inr (s', acc')"
    and "origin_time s = Some origin"
    and "\<forall>b \<in> set acc. sac_b b = - (origin - starttime b) \<and> sac_o b = 0"
  shows "origin_time s' = Some origin \<and>
         (\<forall>b \<in> set acc'. sac_b b = - (origin - starttime b) \<and> sac_o b = 0)"
proof -
  from assms(1) obtain a' path where
    c: "condition_trace L P (origin_time s) a = Inr a'" and
    s': "s' = s\<lparr>world := write_sac path a' (world s), tr := Some a'\<rparr>" and
    acc': "acc' = acc @ [a']"
    by (auto simp add: condition_step_def write_into_def and_then_Inr_iff split: if_splits)
  from condition_trace_b_o [OF c] assms(2)
  have "sac_b a' = - (origin - starttime a') \<and> sac_o a' = 0" by auto
  with assms(2,3) s' acc' show ?thesis by auto
qed

lemma condition_loop_markers:
  assumes "run_each (condition_step L P evid) ts sa = Inr sa'"
    and "origin_time (fst sa) = Some origin"
    and "\<forall>b \<in> set (snd sa). sac_b b = - (origin - starttime b) \<and> sac_o b = 0"
  shows "\<forall>b \<in> set (snd sa'). sac_b b = - (origin - starttime b) \<and> sac_o b = 0"
proof -
  let ?Q = "\<lambda>u. origin_time (fst u) = Some origin \<and>
                 (\<forall>b \<in> set (snd u). sac_b b = - (origin - starttime b) \<and> sac_o b = 0)"
  have "?Q sa'"
  proof (rule run_each_invariant [where Q = ?Q, OF assms(1)])
    show "?Q sa" using assms(2,3) by simp
  next
    fix x u u'
    assume "condition_step L P evid x u = Inr u'" and "?Q u"
    then show "?Q u'"
      using condition_step_inv [of L P evid x "fst u" "snd u" "fst u'" "snd u'" origin]
      by simp
  qed
  then show ?thesis by simp
qed

lemmas cell4_eval = cell_condition_def condition_step_def condition_trace_def new_rate_def
  py_int_def reference_t1_def slowness_p_def sacout_path_def outdir_def event_dir_def
  write_into_def write_sac_def Let_def

text \<open>
  C3. For every trace the loop body of cell 4 conditions, the reference time \<open>t1\<close> it
  stores in the trace and anchors the trim window at is the origin time when \<open>vred\<close> is
  unset or zero, whatever the distance of the station, and
  \<open>origin_time + distance / vred\<close> otherwise, with the distance the trace carries after
  resampling.
\<close>

theorem condition_trace_reference_time:
  assumes "condition_trace L P (Some origin) a = Inr a'"
  shows "\<exists>a1 a2 a4 t1.
           decimate L (py_int (sampling_rate a * dt P)) a = Inr a1 \<and>
           resample L (1 / dt P) a1 = Inr a2 \<and>
           trim L (t1 - time_before P) (t1 + time_after P) (a2\<lparr>sac_t1 := Some t1\<rparr>) = Inr a4 \<and>
           sac_t1 a' = sac_t1 a4 \<and>
           (vred P = None \<longrightarrow> t1 = origin) \<and>
           (vred P = Some 0 \<longrightarrow> t1 = origin) \<and>
           (\<forall>w. vred P = Some w \<and> w \<noteq> 0 \<longrightarrow> t1 = origin + sac_dist a2 / w)"
proof -
  from assms obtain a1 rate a2 a4 where
    d: "decimate L (py_int (sampling_rate a * dt P)) a = Inr a1"
    and r: "new_rate P = Inr rate"
    and rs: "resample L rate a1 = Inr a2"
    and t: "trim L (reference_t1 origin (vred P) (sac_dist a2) - time_before P)
              (reference_t1 origin (vred P) (sac_dist a2) + time_after P)
              (a2\<lparr>sac_t1 := Some (reference_t1 origin (vred P) (sac_dist a2))\<rparr>) = Inr a4"
    and a': "a' = a4\<lparr>samples := map (\<lambda>x. 100 * x) (samples a4),
                    sac_b := - 1 * (origin - starttime a4), sac_o := 0\<rparr>"
    by (auto simp add: condition_trace_def and_then_Inr_iff Let_def)
  from r have rate: "rate = 1 / dt P"
    by (auto simp add: new_rate_def split: if_splits)
  let ?t1 = "reference_t1 origin (vred P) (sac_dist a2)"
  have rs': "resample L (1 / dt P) a1 = Inr a2"
    using rs rate by simp
  have same: "sac_t1 a' = sac_t1 a4"
    using a' by simp
  have cases: "(vred P = None \<longrightarrow> ?t1 = origin) \<and> (vred P = Some 0 \<longrightarrow> ?t1 = origin) \<and>
      (\<forall>w. vred P = Some w \<and> w \<noteq> 0 \<longrightarrow> ?t1 = origin + sac_dist a2 / w)"
    by (simp add: reference_t1_eq)
  have "decimate L (py_int (sampling_rate a * dt P)) a = Inr a1 \<and>
        resample L (1 / dt P) a1 = Inr a2 \<and>
        trim L (?t1 - time_before P) (?t1 + time_after P) (a2\<lparr>sac_t1 := Some ?t1\<rparr>) = Inr a4 \<and>
        sac_t1 a' = sac_t1 a4 \<and>
        (vred P = None \<longrightarrow> ?t1 = origin) \<and>
        (vred P = Some 0 \<longrightarrow> ?t1 = origin) \<and>
        (\<forall>w. vred P = Some w \<and> w \<noteq> 0 \<longrightarrow> ?t1 = origin + sac_dist a2 / w)"
    using d rs' t same cases by (simp only: simp_thms)
  then show ?thesis
    apply -
    apply (rule exI [of _ a1])
    apply (rule exI [of _ a2])
    apply (rule exI [of _ a4])
    apply (rule exI [of _ ?t1])
    apply assumption
    done
qed

theorem condition_trace_reference_time_witness:
  "condition_trace stub_obspy notebook_params (Some 1000) raw_z = Inr anchored_z \<and>
   vred notebook_params = Some 0 \<and> sac_t1 anchored_z = Some 1000 \<and>
   condition_trace stub_obspy (notebook_params\<lparr>vred := Some 8\<rparr>) (Some 1000) raw_z = Inr reduced_z \<and>
   sac_dist raw_z = 8099 / 100 \<and> sac_t1 reduced_z = Some (1000 + (8099 / 100) / 8)"
proof -
  have zero: "condition_trace stub_obspy notebook_params (Some 1000) raw_z = Inr anchored_z"
    by (simp add: cell4_eval stub_obspy_def notebook_params_def raw_z_def anchored_z_def cond_z_def)
  have eight: "condition_trace stub_obspy (notebook_params\<lparr>vred := Some 8\<rparr>) (Some 1000) raw_z = Inr reduced_z"
    by (simp add: cell4_eval stub_obspy_def notebook_params_def raw_z_def reduced_z_def)
  from condition_trace_reference_time [OF zero] condition_trace_reference_time [OF eight] zero eight
  show ?thesis
    by (simp add: notebook_params_def raw_z_def anchored_z_def cond_z_def reduced_z_def)
qed

text \<open>
  C4. When cell 4 succeeds, every trace of the stream has its marker \<open>b\<close> equal to
  \<open>-(origin_time - starttime)\<close>, with the start time the trace has after trimming, and its
  marker \<open>o\<close> equal to zero.
\<close>

theorem cell_condition_markers:
  assumes "cell_condition L P evid s = Inr s'" and "origin_time s = Some origin"
    and "st s' = Some out"
  shows "\<forall>a \<in> set out. sac_b a = - (origin - starttime a) \<and> sac_o a = 0"
proof -
  from assms(1) obtain tp sa where
    loop: "run_each (condition_step L P evid) tp (s, []) = Inr sa"
    and s': "s' = (fst sa)\<lparr>st := Some (snd sa)\<rparr>"
    by (auto simp add: cell_condition_def and_then_Inr_iff split: option.splits)
  from condition_loop_markers [OF loop] assms(2)
  have "\<forall>b \<in> set (snd sa). sac_b b = - (origin - starttime b) \<and> sac_o b = 0"
    by simp
  with s' assms(3) show ?thesis by simp
qed

theorem cell_condition_markers_witness:
  "cell_condition stub_obspy notebook_params ''40191336'' loaded = Inr conditioned \<and>
   origin_time loaded = Some 1000 \<and> st conditioned = Some [cond_z] \<and>
   starttime cond_z = 970 \<and> sac_b cond_z = - (1000 - 970) \<and> sac_o cond_z = 0"
proof -
  have ev: "cell_condition stub_obspy notebook_params ''40191336'' loaded = Inr conditioned"
    by (simp add: cell4_eval stub_obspy_def notebook_params_def loaded_def conditioned_def
        raw_z_def cond_z_def fresh_def event_disk_def)
  have o: "origin_time loaded = Some 1000" by (simp add: loaded_def)
  have out: "st conditioned = Some [cond_z]" by (simp add: conditioned_def)
  from cell_condition_markers [OF ev o out] show ?thesis
    using ev o out by (simp add: cond_z_def)
qed

text \<open>
  The window cell 4 hands to \<open>trim\<close> starts \<open>time_before\<close> before the reference time
  and is \<open>time_before + time_after\<close> long, whatever the reference time; the conditioned
  trace has the start time and the number of samples of the trace \<open>trim\<close> returned.
\<close>

theorem condition_trace_trim_window:
  assumes "condition_trace L P (Some origin) a = Inr a'"
  shows "\<exists>a3 a4 ref.
           ref = reference_t1 origin (vred P) (sac_dist a3) \<and>
           trim L (ref - time_before P) (ref - time_before P + (time_before P + time_after P)) a3 = Inr a4 \<and>
           length (samples a') = length (samples a4) \<and> starttime a' = starttime a4"
proof -
  from assms obtain a1 rate a2 a4 where
    "decimate L (py_int (sampling_rate a * dt P)) a = Inr a1" and "new_rate P = Inr rate"
    and "resample L rate a1 = Inr a2"
    and t: "trim L (reference_t1 origin (vred P) (sac_dist a2) - time_before P)
              (reference_t1 origin (vred P) (sac_dist a2) + time_after P)
              (a2\<lparr>sac_t1 := Some (reference_t1 origin (vred P) (sac_dist a2))\<rparr>) = Inr a4"
    and a': "a' = a4\<lparr>samples := map (\<lambda>x. 100 * x) (samples a4),
                    sac_b := - 1 * (origin - starttime a4), sac_o := 0\<rparr>"
    by (auto simp add: condition_trace_def and_then_Inr_iff Let_def)
  let ?a3 = "a2\<lparr>sac_t1 := Some (reference_t1 origin (vred P) (sac_dist a2))\<rparr>"
  let ?ref = "reference_t1 origin (vred P) (sac_dist ?a3)"
  have w: "?ref - time_before P + (time_before P + time_after P) = ?ref + time_after P"
    by simp
  have "trim L (?ref - time_before P) (?ref - time_before P + (time_before P + time_after P)) ?a3 = Inr a4"
    using t by (simp only: w) simp
  moreover have "length (samples a') = length (samples a4)" "starttime a' = starttime a4"
    using a' by simp_all
  ultimately show ?thesis by blast
qed

theorem condition_trace_trim_window_witness:
  "condition_trace stub_obspy notebook_params (Some 1000) raw_z =
     Inr (cond_z\<lparr>samples := [400, 800]\<rparr>) \<and>
   trim stub_obspy (1000 - 30) (1000 - 30 + (30 + 200)) (raw_z\<lparr>sac_t1 := Some 1000\<rparr>) =
     Inr (raw_z\<lparr>sac_t1 := Some 1000, starttime := 970\<rparr>) \<and>
   length (samples (cond_z\<lparr>samples := [400, 800]\<rparr>)) = length (samples raw_z) \<and>
   starttime (cond_z\<lparr>samples := [400, 800]\<rparr>) = 970"
proof -
  have ev: "condition_trace stub_obspy notebook_params (Some 1000) raw_z =
      Inr (cond_z\<lparr>samples := [400, 800]\<rparr>)"
    by (simp add: cell4_eval stub_obspy_def notebook_params_def raw_z_def cond_z_def)
  from condition_trace_trim_window [OF ev] ev show ?thesis
    by (simp add: stub_obspy_def raw_z_def cond_z_def)
qed

subsection \<open>Building the distance file\<close>

lemma write_rows_append:
  "vred P = Some v \<Longrightarrow> texts d path = Some old \<Longrightarrow>
   run_each (write_row P F path) rows d =
     Inr (d\<lparr>texts := (texts d)(path \<mapsto> old @ concat (map (line_text P F v) rows))\<rparr>)"
proof (induction rows arbitrary: d old)
  case Nil
  then show ?case by (simp add: fun_upd_idem)
next
  case (Cons row rows)
  have step: "write_row P F path row d = Inr (file_write path (line_text P F v row) d)"
    using Cons.prems by (simp add: write_row_def dfile_line_def line_text_def)
  have t: "texts (file_write path (line_text P F v row) d) path = Some (old @ line_text P F v row)"
    using Cons.prems by (simp add: file_write_def)
  have "run_each (write_row P F path) (row # rows) d =
        run_each (write_row P F path) rows (file_write path (line_text P F v row) d)"
    using step by simp
  also have "\<dots> = Inr ((file_write path (line_text P F v row) d)
       \<lparr>texts := (texts (file_write path (line_text P F v row) d))
          (path \<mapsto> (old @ line_text P F v row) @ concat (map (line_text P F v) rows))\<rparr>)"
    by (rule Cons.IH [OF Cons.prems(1) t])
  also have "\<dots> = Inr (d\<lparr>texts := (texts d)(path \<mapsto> old @ concat (map (line_text P F v) (row # rows)))\<rparr>)"
    by (simp add: file_write_def)
  finally show ?case .
qed

lemma build_dfile_ok:
  "vred P = Some v \<Longrightarrow>
   build_dfile P F path (Some rows) d =
     Inr (d\<lparr>texts := (texts d)(path \<mapsto> concat (map (line_text P F v) rows))\<rparr>)"
  using write_rows_append [of P v "open_w path d" path "[]" F rows]
  by (simp add: build_dfile_def open_w_def)

lemma build_dfile_None:
  "vred P = None \<Longrightarrow> build_dfile P F path (Some (row # rows)) d = Inl TypeError"
  by (simp add: build_dfile_def write_row_def dfile_line_def)

lemma build_dfile_isl:
  "isl (build_dfile P F path table d) \<longleftrightarrow>
     (table = None \<or> (vred P = None \<and> table \<noteq> Some []))"
proof (cases table)
  case None
  then show ?thesis by (simp add: build_dfile_def)
next
  case (Some rows)
  show ?thesis
  proof (cases "vred P")
    case None
    then show ?thesis
      using Some build_dfile_None [of P F path _ _ d]
      by (cases rows) (simp_all add: build_dfile_def)
  next
    case (Some v)
    with \<open>table = Some rows\<close> show ?thesis
      by (simp add: build_dfile_ok)
  qed
qed

lemma line_text_newlines: "length (filter (\<lambda>c. c = CHR 0x0A) (line_text P F v row)) = 1"
proof -
  have "filter (\<lambda>c. c = CHR 0x0A) s = []" if "CHR 0x0A \<notin> set s" for s :: string
    using that by (induction s) auto
  then show ?thesis
    by (simp add: line_text_def fmt_f_no_newline fmt_d_no_newline)
qed

lemma dfile_newlines:
  "length (filter (\<lambda>c. c = CHR 0x0A) (concat (map (line_text P F v) rows))) = length rows"
  by (induction rows) (simp_all add: line_text_newlines)

lemma vred_notebook: "vred notebook_params = Some 0"
  by (simp add: notebook_params_def)

lemma line_qrdg: "line_text notebook_params notebook_fk 0 qrdg = ''81 1.00 256 0 0.0'' @ [CHR 0x0A]"
  by (simp add: line_text_def notebook_params_def notebook_fk_def qrdg_def fmt_eval)

lemma line_mccm: "line_text notebook_params notebook_fk 0 mccm = ''105 1.00 256 0 0.0'' @ [CHR 0x0A]"
  by (simp add: line_text_def notebook_params_def notebook_fk_def mccm_def fmt_eval)

lemma line_qrdg_250:
  "line_text notebook_params (notebook_fk\<lparr>npts := 250\<rparr>) 0 qrdg = ''81 1.00 250 0 0.0'' @ [CHR 0x0A]"
  by (simp add: line_text_def notebook_params_def notebook_fk_def qrdg_def fmt_eval)

text \<open>
  C8. With a numeric \<open>vred\<close>, building the distance file leaves at its path exactly the
  lines of the stations, one per station in table order, each in the format
  \<open>{distance:.0f} {dt:.2f} {npts:d} {t0:d} {vred:.1f}\<close>; what the file held before is
  gone, and no other file changes.
\<close>

theorem build_dfile_one_line_per_station:
  assumes "vred P = Some v"
  shows "build_dfile P F path (Some rows) d =
           Inr (d\<lparr>texts := (texts d)(path \<mapsto> concat (map (line_text P F v) rows))\<rparr>) \<and>
         length (filter (\<lambda>c. c = CHR 0x0A) (concat (map (line_text P F v) rows))) = length rows"
  using build_dfile_ok [OF assms] dfile_newlines by simp

theorem build_dfile_one_line_per_station_witness:
  "vred notebook_params = Some 0 \<and>
   build_dfile notebook_params notebook_fk ''40191336/dfile'' (Some [qrdg, mccm]) old_dfile =
     Inr (old_dfile\<lparr>texts := (texts old_dfile)(''40191336/dfile'' \<mapsto>
            ''81 1.00 256 0 0.0'' @ [CHR 0x0A] @ ''105 1.00 256 0 0.0'' @ [CHR 0x0A])\<rparr>) \<and>
   texts old_dfile ''40191336/dfile'' = Some ''stale line''"
proof -
  have v: "vred notebook_params = Some 0" by (simp add: notebook_params_def)
  from build_dfile_one_line_per_station [OF v, where F = notebook_fk and path = "''40191336/dfile''"
      and rows = "[qrdg, mccm]" and d = old_dfile]
  show ?thesis
    using v by (simp add: line_qrdg line_mccm old_dfile_def)
qed

text \<open>
  C5, as the code has it. The build never checks \<open>npts\<close>: with a numeric \<open>vred\<close> it
  succeeds for every integer \<open>npts\<close> and writes that integer on every line, and whether
  a build fails never depends on \<open>npts\<close>.
\<close>

theorem build_dfile_any_npts:
  "(vred P = Some v \<longrightarrow>
      build_dfile P (F\<lparr>npts := n\<rparr>) path (Some rows) d =
        Inr (d\<lparr>texts := (texts d)(path \<mapsto> concat (map (line_text P (F\<lparr>npts := n\<rparr>) v) rows))\<rparr>)) \<and>
   (isl (build_dfile P (F\<lparr>npts := n\<rparr>) path table d) \<longleftrightarrow>
    isl (build_dfile P (F\<lparr>npts := m\<rparr>) path table d))"
  by (simp add: build_dfile_ok build_dfile_isl)

theorem build_dfile_any_npts_witness:
  "vred notebook_params = Some 0 \<and>
   build_dfile notebook_params (notebook_fk\<lparr>npts := 250\<rparr>) ''40191336/dfile'' (Some [qrdg]) disk0 =
     Inr (disk0\<lparr>texts := (texts disk0)(''40191336/dfile'' \<mapsto> ''81 1.00 250 0 0.0'' @ [CHR 0x0A])\<rparr>) \<and>
   \<not> isl (build_dfile notebook_params (notebook_fk\<lparr>npts := 256\<rparr>) ''40191336/dfile'' (Some [qrdg]) disk0)"
proof -
  have v: "vred notebook_params = Some 0" by (simp add: notebook_params_def)
  note inst = build_dfile_any_npts [where P = notebook_params and v = 0 and F = notebook_fk and n = 250
      and path = "''40191336/dfile''" and rows = "[qrdg]" and d = disk0 and table = "Some [qrdg]" and m = 256]
  from inst v have e: "build_dfile notebook_params (notebook_fk\<lparr>npts := 250\<rparr>) ''40191336/dfile'' (Some [qrdg]) disk0 =
     Inr (disk0\<lparr>texts := (texts disk0)(''40191336/dfile'' \<mapsto>
       concat (map (line_text notebook_params (notebook_fk\<lparr>npts := 250\<rparr>) 0) [qrdg]))\<rparr>)"
    by blast
  from inst have i: "isl (build_dfile notebook_params (notebook_fk\<lparr>npts := 250\<rparr>) ''40191336/dfile'' (Some [qrdg]) disk0) =
      isl (build_dfile notebook_params (notebook_fk\<lparr>npts := 256\<rparr>) ''40191336/dfile'' (Some [qrdg]) disk0)"
    by blast
  from e have "\<not> isl (build_dfile notebook_params (notebook_fk\<lparr>npts := 250\<rparr>) ''40191336/dfile'' (Some [qrdg]) disk0)"
    by simp
  with i have "\<not> isl (build_dfile notebook_params (notebook_fk\<lparr>npts := 256\<rparr>) ''40191336/dfile'' (Some [qrdg]) disk0)"
    by simp
  with e v show ?thesis by (simp add: line_qrdg_250)
qed

text \<open>
  The claim as the specification words it fails: with \<open>npts = 250\<close>, not a power of two,
  the build succeeds and writes \<open>250\<close> into the file.
\<close>

theorem build_dfile_npts_250_counterexample:
  "build_dfile notebook_params (notebook_fk\<lparr>npts := 250\<rparr>) ''40191336/dfile'' (Some [qrdg]) disk0 =
     Inr (disk0\<lparr>texts := (texts disk0)(''40191336/dfile'' \<mapsto> ''81 1.00 250 0 0.0'' @ [CHR 0x0A])\<rparr>)"
proof -
  have v: "vred notebook_params = Some 0" by (simp add: notebook_params_def)
  show ?thesis
    by (simp add: build_dfile_ok [OF v] line_qrdg_250)
qed

subsection \<open>What the filter step reads\<close>

lemma sacin_path_suffix:
  "sacin_path dir a = Inr p \<Longrightarrow> \<exists>x. p = x @ ''.dat''"
  by (auto simp add: sacin_path_def split: if_splits)

lemma green_file_not_sacin:
  assumes "sacin_path dir a = Inr p" and "grn \<in> set greens"
  shows "y @ ''.'' @ grn \<noteq> p"
proof
  assume eq: "y @ ''.'' @ grn = p"
  from sacin_path_suffix [OF assms(1)] obtain x where p: "p = x @ ''.dat''" by blast
  from assms(2) have len: "length (''.'' @ grn) = length ''.dat''"
    by (auto simp add: greens_def)
  from eq p have "y @ (''.'' @ grn) = x @ ''.dat''" by simp
  with len have "''.'' @ grn = ''.dat''" by (metis append_eq_append_conv)
  with assms(2) show False by (auto simp add: greens_def)
qed

lemma filter_green_ok:
  assumes "tr s = Some a" and "sacin_path (outdir evid) a = Inr p"
    and "sacs (world s) p = Some tmp"
    and "bandpass L (freqmin P) (freqmax P) (corners P) True tmp = Inr tmp'"
  shows "filter_green L P F evid d row grn s =
           Inr (s\<lparr>world := write_sac (green_sacout (green_dir evid F) row d @ ''.'' @ grn) tmp' (world s)\<rparr>)"
  using assms by (simp add: filter_green_def read_sac_def)

lemma filter_greens_fold:
  assumes "tr s = Some a" and "sacin_path (outdir evid) a = Inr p"
    and "sacs (world s) p = Some tmp"
    and "bandpass L (freqmin P) (freqmax P) (corners P) True tmp = Inr tmp'"
    and "set gs \<subseteq> set greens"
  shows "run_each (filter_green L P F evid d row) gs s =
           Inr (s\<lparr>world := fold (\<lambda>q. write_sac q tmp')
                  (map (\<lambda>grn. green_sacout (green_dir evid F) row d @ ''.'' @ grn) gs) (world s)\<rparr>)"
  using assms(1,3,5)
proof (induction gs arbitrary: s)
  case Nil
  then show ?case by simp
next
  case (Cons g gs)
  let ?q = "green_sacout (green_dir evid F) row d @ ''.'' @ g"
  let ?s1 = "s\<lparr>world := write_sac ?q tmp' (world s)\<rparr>"
  have step: "filter_green L P F evid d row g s = Inr ?s1"
    by (rule filter_green_ok [OF Cons.prems(1) assms(2) Cons.prems(2) assms(4)])
  from Cons.prems(3) have g: "g \<in> set greens" and gs: "set gs \<subseteq> set greens" by auto
  have ne: "?q \<noteq> p"
    using green_file_not_sacin [OF assms(2) g] by simp
  have a1: "tr ?s1 = Some a" using Cons.prems(1) by simp
  have a2: "sacs (world ?s1) p = Some tmp"
    using Cons.prems(2) ne by (simp add: write_sac_def)
  show ?case
    using Cons.IH [OF a1 a2 gs] step by simp
qed

lemma write_all_Nil [simp]: "write_all [] a w = w"
  by (simp add: write_all_def)

lemma write_all_append: "write_all (qs @ rs) a w = write_all rs a (write_all qs a w)"
  by (simp add: write_all_def)

lemma sacs_write_all:
  "sacs (write_all qs a w) q = (if q \<in> set qs then Some a else sacs w q)"
  by (induction qs arbitrary: w) (auto simp add: write_all_def write_sac_def)

lemma sacin_not_green_file:
  assumes "sacin_path dir a = Inr p"
  shows "p \<notin> set (green_files evid F d row)"
  using green_file_not_sacin [OF assms] by (auto simp add: green_files_def)

lemma sacin_not_all_green_files:
  assumes "sacin_path dir a = Inr p"
  shows "p \<notin> set (all_green_files evid F d rows)"
  using sacin_not_green_file [OF assms] by (auto simp add: all_green_files_def)

lemma filter_station_ok:
  assumes "tr s = Some a" and "sacin_path (outdir evid) a = Inr p"
    and "sacs (world s) p = Some tmp"
    and "bandpass L (freqmin P) (freqmax P) (corners P) True tmp = Inr tmp'"
  shows "filter_station L P F evid d row s =
           Inr (s\<lparr>world := write_all (green_files evid F d row) tmp' (world s)\<rparr>)"
  using filter_greens_fold [OF assms, of greens F d row]
  by (simp add: filter_station_def green_files_def write_all_def)

lemma filter_rows_ok:
  assumes "tr s = Some a" and "sacin_path (outdir evid) a = Inr p"
    and "sacs (world s) p = Some tmp"
    and "bandpass L (freqmin P) (freqmax P) (corners P) True tmp = Inr tmp'"
  shows "run_each (filter_station L P F evid d) rows s =
           Inr (s\<lparr>world := write_all (all_green_files evid F d rows) tmp' (world s)\<rparr>)"
  using assms(1,3)
proof (induction rows arbitrary: s)
  case Nil
  then show ?case by (simp add: all_green_files_def)
next
  case (Cons row rows)
  let ?s1 = "s\<lparr>world := write_all (green_files evid F d row) tmp' (world s)\<rparr>"
  have step: "filter_station L P F evid d row s = Inr ?s1"
    by (rule filter_station_ok [OF Cons.prems(1) assms(2) Cons.prems(2) assms(4)])
  have a1: "tr ?s1 = Some a" using Cons.prems(1) by simp
  have a2: "sacs (world ?s1) p = Some tmp"
    using Cons.prems(2) sacin_not_green_file [OF assms(2)] by (simp add: sacs_write_all)
  have "all_green_files evid F d (row # rows) = green_files evid F d row @ all_green_files evid F d rows"
    by (simp add: all_green_files_def)
  then show ?case
    using Cons.IH [OF a1 a2] step by (simp add: write_all_append)
qed

lemma sacin_cond_z: "sacin_path (outdir ''40191336'') cond_z = Inr ''40191336/BK.QRDG.00.Z.dat''"
  by (simp add: sacin_path_def outdir_def event_dir_def cond_z_def)

lemma bandpass_cond_z:
  "bandpass stub_obspy (freqmin notebook_params) (freqmax notebook_params) (corners notebook_params) True cond_z
     = Inr half_z"
  by (simp add: stub_obspy_def cond_z_def half_z_def)

lemma conditioned_fields:
  "tr conditioned = Some cond_z" "station_df conditioned = Some [qrdg]"
  "df conditioned = Some [event0]" "calls conditioned = []"
  "sacs (world conditioned) ''40191336/BK.QRDG.00.Z.dat'' = Some cond_z"
  by (simp_all add: conditioned_def loaded_def fresh_def write_sac_def)

lemma demuxed_fields:
  "tr demuxed = Some cond_z"
  "sacs (world demuxed) ''40191336/BK.QRDG.00.Z.dat'' = Some cond_z"
  "sacs (world demuxed) ''B00108TSS.sac'' = Some raw_tss"
  by (simp_all add: demuxed_def conditioned_def loaded_def fresh_def write_sac_def)

lemma tss_file:
  "green_sacout (green_dir ''40191336'' notebook_fk) qrdg 10 @ ''.'' @ ''TSS''
     = ''40191336/gil7/BK.QRDG.00.10.0000.TSS''"
  by (simp add: green_sacout_def green_dir_def event_dir_def notebook_fk_def qrdg_def fmt_10)

text \<open>
  C1, what the code does. The file the filter step reads is named from the global \<open>tr\<close>
  alone, the last trace cell 4 conditioned: it is that trace's own output file
  \<open>outdir/NET.STA.LOC.C.dat\<close>, not a file written by \<open>f96tosac\<close>. So for every station and
  every one of the ten components the file saved under
  \<open>{network}.{station}.{location}.{depth}.{component}\<close> holds one and the same trace, the
  band-passed observed trace. The band-pass parameters are those of cell 4.
\<close>

theorem greens_written_from_observed_trace:
  assumes "tr s = Some a" and "sacin_path (outdir evid) a = Inr p"
    and "sacs (world s) p = Some tmp"
    and "bandpass L (freqmin P) (freqmax P) (corners P) True tmp = Inr tmp'"
  shows "\<exists>s'. run_each (filter_station L P F evid d) rows s = Inr s' \<and>
           (\<forall>row \<in> set rows. \<forall>grn \<in> set greens.
              sacs (world s') (green_sacout (green_dir evid F) row d @ ''.'' @ grn) = Some tmp')"
proof -
  let ?s' = "s\<lparr>world := write_all (all_green_files evid F d rows) tmp' (world s)\<rparr>"
  have "run_each (filter_station L P F evid d) rows s = Inr ?s'"
    by (rule filter_rows_ok [OF assms])
  moreover have "sacs (world ?s') (green_sacout (green_dir evid F) row d @ ''.'' @ grn) = Some tmp'"
    if "row \<in> set rows" and "grn \<in> set greens" for row grn
  proof -
    from that have "green_sacout (green_dir evid F) row d @ ''.'' @ grn \<in> set (all_green_files evid F d rows)"
      by (auto simp add: all_green_files_def green_files_def)
    then show ?thesis by (simp add: sacs_write_all)
  qed
  ultimately show ?thesis by blast
qed

theorem greens_written_from_observed_trace_witness:
  "map_sum id (saved ''40191336/gil7/BK.QRDG.00.10.0000.TSS'')
     (run_each (filter_station stub_obspy notebook_params notebook_fk ''40191336'' 10) [qrdg] demuxed)
     = Inr (Some half_z) \<and>
   saved ''B00108TSS.sac'' demuxed = Some raw_tss \<and>
   saved ''40191336/BK.QRDG.00.Z.dat'' demuxed = Some cond_z \<and>
   trace_id half_z = ''BK.QRDG.00.BHZ''"
proof -
  from greens_written_from_observed_trace
    [OF demuxed_fields(1) sacin_cond_z demuxed_fields(2) bandpass_cond_z,
      where F = notebook_fk and d = 10 and rows = "[qrdg]"]
  obtain s' where run: "run_each (filter_station stub_obspy notebook_params notebook_fk ''40191336'' 10) [qrdg] demuxed = Inr s'"
    and all: "\<forall>row \<in> set [qrdg]. \<forall>grn \<in> set greens.
      sacs (world s') (green_sacout (green_dir ''40191336'' notebook_fk) row 10 @ ''.'' @ grn) = Some half_z"
    by blast
  have "''TSS'' \<in> set greens" by (simp add: greens_def)
  with all have "sacs (world s') (green_sacout (green_dir ''40191336'' notebook_fk) qrdg 10 @ ''.'' @ ''TSS'') = Some half_z"
    by simp
  then have "sacs (world s') ''40191336/gil7/BK.QRDG.00.10.0000.TSS'' = Some half_z"
    by (simp only: tss_file)
  with run demuxed_fields show ?thesis
    by (simp add: saved_def half_z_def cond_z_def)
qed

subsection \<open>Exit codes of the modelling programs\<close>

lemma os_system_fields:
  "tr (snd (os_system sh cmd s)) = tr s"
  "station_df (snd (os_system sh cmd s)) = station_df s"
  "df (snd (os_system sh cmd s)) = df s"
  "calls (snd (os_system sh cmd s)) = calls s @ [cmd]"
  "world (snd (os_system sh cmd s)) = snd (sh cmd (world s))"
  by (simp_all add: os_system_def split: prod.splits)

lemma run_engine_fields:
  "tr (run_engine sh F evid d s) = tr s"
  "station_df (run_engine sh F evid d s) = station_df s"
  "df (run_engine sh F evid d s) = df s"
  "calls (run_engine sh F evid d s) = calls s @ job_cmds F evid d"
  by (simp_all add: run_engine_def Let_def os_system_fields job_cmds_def)

lemma os_system_exit_code:
  "snd (os_system (\<lambda>cmd w. (0, snd (sh cmd w))) cmd s) = snd (os_system sh cmd s)"
  by (simp add: os_system_def split: prod.splits)

lemma run_engine_exit_code:
  "run_engine (\<lambda>cmd w. (0, snd (sh cmd w))) F evid d s = run_engine sh F evid d s"
  by (simp add: run_engine_def os_system_exit_code)

lemma depth_job_exit_code:
  "depth_job L (\<lambda>cmd w. (0, snd (sh cmd w))) P F evid d s = depth_job L sh P F evid d s"
  by (simp add: depth_job_def run_engine_exit_code)

lemma filter_green_calls:
  "filter_green L P F evid d row grn s = Inr s' \<Longrightarrow> calls s' = calls s"
  by (auto simp add: filter_green_def and_then_Inr_iff split: option.splits)

lemma filter_station_calls:
  assumes "filter_station L P F evid d row s = Inr s'"
  shows "calls s' = calls s"
proof -
  have "calls s' = calls s"
    by (rule run_each_invariant [where Q = "\<lambda>u. calls u = calls s", OF assms [unfolded filter_station_def]])
      (simp_all add: filter_green_calls)
  then show ?thesis .
qed

lemma filter_rows_calls:
  assumes "run_each (filter_station L P F evid d) rows s = Inr s'"
  shows "calls s' = calls s"
  by (rule run_each_invariant [where Q = "\<lambda>u. calls u = calls s", OF assms])
    (simp_all add: filter_station_calls)

lemma depth_job_calls:
  assumes "depth_job L sh P F evid d s = Inr s'"
  shows "calls s' = calls s @ job_cmds F evid d"
proof -
  from assms obtain d1 rows where
    loop: "run_each (filter_station L P F evid d) rows (run_engine sh F evid d (s\<lparr>world := d1\<rparr>)) = Inr s'"
    by (auto simp add: depth_job_def and_then_Inr_iff Let_def split: option.splits)
  from filter_rows_calls [OF loop] show ?thesis
    by (simp add: run_engine_fields)
qed

lemma depth_jobs_calls:
  "run_each (depth_job L sh P F evid) ds s = Inr s' \<Longrightarrow>
   calls s' = calls s @ concat (map (job_cmds F evid) ds)"
proof (induction ds arbitrary: s)
  case Nil
  then show ?case by simp
next
  case (Cons d ds)
  from Cons.prems obtain u where u: "depth_job L sh P F evid d s = Inr u"
    and rest: "run_each (depth_job L sh P F evid) ds u = Inr s'"
    by (auto split: sum.splits)
  from Cons.IH [OF rest] depth_job_calls [OF u] show ?case by simp
qed

lemma cell_greens_calls:
  assumes "cell_greens L sh P F evid s = Inr s'" and "df s = Some (e # es)"
  shows "calls s' = calls s @ concat (map (job_cmds F evid) (depths (ev_depth e))) @ [''rm B*.sac'']"
proof -
  from assms obtain s1 where
    jobs: "run_each (depth_job L sh P F evid) (depths (ev_depth e))
             (s\<lparr>world := mkdir_parents evid F (world s)\<rparr>) = Inr s1"
    and s': "s' = snd (os_system sh ''rm B*.sac'' s1)"
    by (auto simp add: cell_greens_def first_row_def and_then_Inr_iff Let_def)
  from depth_jobs_calls [OF jobs] s' show ?thesis
    by (simp add: os_system_fields)
qed

lemma os_system_sacs:
  assumes "\<forall>cmd w. sacs (snd (sh cmd w)) p = sacs w p"
  shows "sacs (world (snd (os_system sh cmd s))) p = sacs (world s) p"
  using assms by (simp add: os_system_fields)

lemma run_engine_sacs:
  assumes "\<forall>cmd w. sacs (snd (sh cmd w)) p = sacs w p"
  shows "sacs (world (run_engine sh F evid d s)) p = sacs (world s) p"
  by (simp add: run_engine_def Let_def os_system_sacs [OF assms])

lemma depth_job_ok:
  assumes v: "vred P = Some v" and rows: "station_df s = Some rows"
    and a: "tr s = Some a" and p: "sacin_path (outdir evid) a = Inr p"
    and tmp: "sacs (world s) p = Some tmp"
    and bp: "bandpass L (freqmin P) (freqmax P) (corners P) True tmp = Inr tmp'"
    and sh: "\<forall>cmd w. sacs (snd (sh cmd w)) p = sacs w p"
  shows "\<exists>s'. depth_job L sh P F evid d s = Inr s' \<and> station_df s' = Some rows \<and>
           tr s' = Some a \<and> sacs (world s') p = Some tmp \<and>
           (\<forall>q \<in> set (all_green_files evid F d rows). sacs (world s') q = Some tmp')"
proof -
  let ?d1 = "(world s)\<lparr>texts := (texts (world s))(dfile_out evid \<mapsto> concat (map (line_text P F v) rows))\<rparr>"
  let ?s5 = "run_engine sh F evid d (s\<lparr>world := ?d1\<rparr>)"
  let ?s' = "?s5\<lparr>world := write_all (all_green_files evid F d rows) tmp' (world ?s5)\<rparr>"
  have b: "build_dfile P F (dfile_out evid) (station_df s) (world s) = Inr ?d1"
    using rows by (simp add: build_dfile_ok [OF v])
  have r5: "station_df ?s5 = Some rows" using rows by (simp add: run_engine_fields)
  have a5: "tr ?s5 = Some a" using a by (simp add: run_engine_fields)
  have t5: "sacs (world ?s5) p = Some tmp"
    using tmp by (simp add: run_engine_sacs [OF sh])
  have loop: "run_each (filter_station L P F evid d) rows ?s5 = Inr ?s'"
    by (rule filter_rows_ok [OF a5 p t5 bp])
  have job: "depth_job L sh P F evid d s = Inr ?s'"
    using b r5 loop by (simp add: depth_job_def Let_def)
  have "sacs (world ?s') p = Some tmp"
    using t5 sacin_not_all_green_files [OF p] by (simp add: sacs_write_all)
  moreover have "\<forall>q \<in> set (all_green_files evid F d rows). sacs (world ?s') q = Some tmp'"
    by (simp add: sacs_write_all)
  ultimately show ?thesis
    using job r5 a5 by auto
qed

lemma depth_jobs_ok:
  assumes v: "vred P = Some v"
    and p: "sacin_path (outdir evid) a = Inr p"
    and bp: "bandpass L (freqmin P) (freqmax P) (corners P) True tmp = Inr tmp'"
    and sh: "\<forall>cmd w. sacs (snd (sh cmd w)) p = sacs w p"
  shows "station_df s = Some rows \<Longrightarrow> tr s = Some a \<Longrightarrow> sacs (world s) p = Some tmp \<Longrightarrow>
         \<exists>s'. run_each (depth_job L sh P F evid) ds s = Inr s'"
proof (induction ds arbitrary: s)
  case Nil
  then show ?case by simp
next
  case (Cons d ds)
  from depth_job_ok [OF v Cons.prems(1) Cons.prems(2) p Cons.prems(3) bp sh, where F = F and d = d]
  obtain u where u: "depth_job L sh P F evid d s = Inr u" and "station_df u = Some rows"
    and "tr u = Some a" and "sacs (world u) p = Some tmp"
    by blast
  from Cons.IH [OF this(2,3,4)] u show ?case by simp
qed

lemma cell_greens_ok:
  assumes v: "vred P = Some v" and ev: "df s = Some (e # es)"
    and rows: "station_df s = Some rows"
    and a: "tr s = Some a" and p: "sacin_path (outdir evid) a = Inr p"
    and tmp: "sacs (world s) p = Some tmp"
    and bp: "bandpass L (freqmin P) (freqmax P) (corners P) True tmp = Inr tmp'"
    and sh: "\<forall>cmd w. sacs (snd (sh cmd w)) p = sacs w p"
  shows "\<exists>s'. cell_greens L sh P F evid s = Inr s'"
proof -
  let ?s0 = "s\<lparr>world := mkdir_parents evid F (world s)\<rparr>"
  have "station_df ?s0 = Some rows" "tr ?s0 = Some a" "sacs (world ?s0) p = Some tmp"
    using rows a tmp by (simp_all add: mkdir_parents_def)
  from depth_jobs_ok [OF v p bp sh this, where F = F and ds = "depths (ev_depth e)"]
  obtain s1 where "run_each (depth_job L sh P F evid) (depths (ev_depth e)) ?s0 = Inr s1"
    by blast
  then show ?thesis
    using ev by (simp add: cell_greens_def first_row_def Let_def)
qed

lemma failing_shell_keeps: "\<forall>cmd w. sacs (snd (failing_shell cmd w)) p = sacs w p"
  by (simp add: failing_shell_def)

lemma hprep_10:
  "hprep96_cmd notebook_fk (dfile_out ''40191336'') 10 =
     ''hprep96 -M gil7.d -d 40191336/dfile -HS 10.0000 -HR 0 -EQEX''"
  by (simp add: hprep96_cmd_def dfile_out_def event_dir_def notebook_fk_def fmt_10)

lemma hprep_14:
  "hprep96_cmd notebook_fk (dfile_out ''40191336'') 14 =
     ''hprep96 -M gil7.d -d 40191336/dfile -HS 14.0000 -HR 0 -EQEX''"
  by (simp add: hprep96_cmd_def dfile_out_def event_dir_def notebook_fk_def fmt_14)

lemma hprep_20:
  "hprep96_cmd notebook_fk (dfile_out ''40191336'') 20 =
     ''hprep96 -M gil7.d -d 40191336/dfile -HS 20.0000 -HR 0 -EQEX''"
  by (simp add: hprep96_cmd_def dfile_out_def event_dir_def notebook_fk_def fmt_20)

lemma failing_job:
  "\<exists>s'. depth_job stub_obspy failing_shell notebook_params notebook_fk ''40191336'' 10 conditioned = Inr s' \<and>
     sacs (world s') ''40191336/gil7/BK.QRDG.00.10.0000.TSS'' = Some half_z"
proof -
  from depth_job_ok [OF vred_notebook conditioned_fields(2) conditioned_fields(1) sacin_cond_z
      conditioned_fields(5) bandpass_cond_z failing_shell_keeps, where F = notebook_fk and d = 10]
  obtain s' where job: "depth_job stub_obspy failing_shell notebook_params notebook_fk ''40191336'' 10 conditioned = Inr s'"
    and files: "\<forall>q \<in> set (all_green_files ''40191336'' notebook_fk 10 [qrdg]). sacs (world s') q = Some half_z"
    by blast
  have "green_sacout (green_dir ''40191336'' notebook_fk) qrdg 10 @ ''.'' @ ''TSS''
          \<in> set (all_green_files ''40191336'' notebook_fk 10 [qrdg])"
    by (simp add: all_green_files_def green_files_def greens_def)
  then have "''40191336/gil7/BK.QRDG.00.10.0000.TSS'' \<in> set (all_green_files ''40191336'' notebook_fk 10 [qrdg])"
    by (simp only: tss_file)
  with files job show ?thesis by blast
qed

text \<open>
  C6, as the code has it. The exit codes of the four commands are dropped: one depth runs
  exactly as it would had every command returned zero, and whenever it ends without a
  Python exception the four commands were all issued, in order.
\<close>

theorem depth_job_ignores_exit_codes:
  "depth_job L sh P F evid d s = depth_job L (\<lambda>cmd w. (0, snd (sh cmd w))) P F evid d s \<and>
   (depth_job L sh P F evid d s = Inr s' \<longrightarrow> calls s' = calls s @ job_cmds F evid d)"
  using depth_job_exit_code [of L sh P F evid d s] depth_job_calls [of L sh P F evid d s s']
  by simp

theorem depth_job_ignores_exit_codes_witness:
  "depth_job stub_obspy failing_shell notebook_params notebook_fk ''40191336'' 10 conditioned =
     depth_job stub_obspy (\<lambda>cmd w. (0, snd (failing_shell cmd w))) notebook_params notebook_fk ''40191336'' 10 conditioned \<and>
   map_sum id calls (depth_job stub_obspy failing_shell notebook_params notebook_fk ''40191336'' 10 conditioned) =
     Inr (job_cmds notebook_fk ''40191336'' 10)"
proof -
  from failing_job obtain s' where
    job: "depth_job stub_obspy failing_shell notebook_params notebook_fk ''40191336'' 10 conditioned = Inr s'"
    by blast
  note inst = depth_job_ignores_exit_codes [of stub_obspy failing_shell notebook_params notebook_fk
      "''40191336''" 10 conditioned s']
  from inst job have "calls s' = calls conditioned @ job_cmds notebook_fk ''40191336'' 10"
    by blast
  then have "map_sum id calls (Inr s' :: error + notebook) = Inr (job_cmds notebook_fk ''40191336'' 10)"
    by (simp add: conditioned_fields)
  with inst show ?thesis
    by (simp only: job)
qed

text \<open>
  The claim as the specification words it fails: with a shell whose every command
  returns exit code 1, the depth still issues all four commands, goes on to the filter
  step and saves the components; nothing is raised.
\<close>

theorem depth_job_failing_engine_counterexample:
  "fst (failing_shell (hprep96_cmd notebook_fk (dfile_out ''40191336'') 10) (world conditioned)) = 1 \<and>
   map_sum id calls (depth_job stub_obspy failing_shell notebook_params notebook_fk ''40191336'' 10 conditioned) =
     Inr [''hprep96 -M gil7.d -d 40191336/dfile -HS 10.0000 -HR 0 -EQEX'', ''hspec96'',
          ''hpulse96 -D -i > file96'', ''f96tosac -B file96''] \<and>
   map_sum id (saved ''40191336/gil7/BK.QRDG.00.10.0000.TSS'')
     (depth_job stub_obspy failing_shell notebook_params notebook_fk ''40191336'' 10 conditioned) =
     Inr (Some half_z)"
proof -
  from failing_job obtain s' where
    job: "depth_job stub_obspy failing_shell notebook_params notebook_fk ''40191336'' 10 conditioned = Inr s'"
    and tss: "sacs (world s') ''40191336/gil7/BK.QRDG.00.10.0000.TSS'' = Some half_z"
    by blast
  from depth_job_calls [OF job] have "calls s' = job_cmds notebook_fk ''40191336'' 10"
    by (simp add: conditioned_fields)
  then have "calls s' = [''hprep96 -M gil7.d -d 40191336/dfile -HS 10.0000 -HR 0 -EQEX'', ''hspec96'',
          ''hpulse96 -D -i > file96'', ''f96tosac -B file96'']"
    by (simp add: job_cmds_def hprep_10)
  with job tss show ?thesis by (simp add: failing_shell_def saved_def)
qed

subsection \<open>Depth list\<close>

lemma depths_event0: "depths (ev_depth event0) = [10, 14, 20]"
  by (simp add: depths_def event0_def py_round_def Let_def)

text \<open>
  C7, as the code has it. The depth list always holds the rounded catalog depth together
  with 10 and 20, in ascending order, and always has three entries: a catalog depth that
  rounds to 10 or 20 stays in the list twice. Cell 5 runs the four commands once for each
  entry of the list, in the order of the list.
\<close>

theorem depth_jobs_sorted_three:
  "py_round c \<in> set (depths c) \<and> 10 \<in> set (depths c) \<and> 20 \<in> set (depths c) \<and>
   sorted (depths c) \<and> length (depths c) = 3 \<and>
   (cell_greens L sh P F evid s = Inr s' \<and> df s = Some (e # es) \<longrightarrow>
      calls s' = calls s @ concat (map (job_cmds F evid) (depths (ev_depth e))) @ [''rm B*.sac''])"
  using cell_greens_calls [of L sh P F evid s s' e es]
  by (simp add: depths_def)

theorem depth_jobs_sorted_three_witness:
  "depths (136 / 10) = [10, 14, 20] \<and>
   map_sum id calls (cell_greens stub_obspy failing_shell notebook_params notebook_fk ''40191336'' conditioned) =
     Inr [''hprep96 -M gil7.d -d 40191336/dfile -HS 10.0000 -HR 0 -EQEX'', ''hspec96'',
          ''hpulse96 -D -i > file96'', ''f96tosac -B file96'',
          ''hprep96 -M gil7.d -d 40191336/dfile -HS 14.0000 -HR 0 -EQEX'', ''hspec96'',
          ''hpulse96 -D -i > file96'', ''f96tosac -B file96'',
          ''hprep96 -M gil7.d -d 40191336/dfile -HS 20.0000 -HR 0 -EQEX'', ''hspec96'',
          ''hpulse96 -D -i > file96'', ''f96tosac -B file96'', ''rm B*.sac'']"
proof -
  from cell_greens_ok [OF vred_notebook conditioned_fields(3) conditioned_fields(2)
      conditioned_fields(1) sacin_cond_z conditioned_fields(5) bandpass_cond_z failing_shell_keeps,
      where F = notebook_fk]
  obtain s' where run: "cell_greens stub_obspy failing_shell notebook_params notebook_fk ''40191336'' conditioned = Inr s'"
    by blast
  from depth_jobs_sorted_three [of "136 / 10" stub_obspy failing_shell notebook_params notebook_fk
      "''40191336''" conditioned s' event0 "[]"] run
  have "calls s' = concat (map (job_cmds notebook_fk ''40191336'') (depths (ev_depth event0))) @ [''rm B*.sac'']"
    by (simp add: conditioned_fields)
  then have "calls s' = concat (map (job_cmds notebook_fk ''40191336'') [10, 14, 20]) @ [''rm B*.sac'']"
    by (simp only: depths_event0)
  with run show ?thesis
    using depths_event0 by (simp add: job_cmds_def hprep_10 hprep_14 hprep_20 event0_def)
qed

text \<open>
  The claim as the specification words it fails: a catalog depth of 10.2 km rounds to 10,
  and the list is \<open>[10, 10, 20]\<close>, a duplicate that is not collapsed.
\<close>

theorem depths_duplicate_counterexample:
  "depths (102 / 10) = [10, 10, 20] \<and> \<not> distinct (depths (102 / 10)) \<and>
   length (depths (102 / 10)) = 3"
proof -
  have "depths (102 / 10) = [10, 10, 20]"
    by (simp add: depths_def py_round_def Let_def)
  then show ?thesis
    by simp
qed

subsection \<open>A missing data directory\<close>

lemma cell_load_absent:
  assumes "\<not> path_exists (world s) (sacdir evid)"
  shows "cell_load L evid s = Inr (s\<lparr>stdout := stdout s @ [missing_message evid]\<rparr>)"
  using assms by (simp add: cell_load_def)





text \<open>
  The model agrees with the notebook on a kernel that is not fresh: with the stream of
  event 40191336 still bound and \<open>evid\<close> changed to an event that has no directory at
  all, cell 2 prints its message and cell 4 stops at its first \<open>tr.write\<close>.
\<close>

lemma stale_kernel_write_fails:
  "and_then (cell_load stub_obspy ''40191337'' loaded)
     (cell_condition stub_obspy notebook_params ''40191337'') =
   Inl (FileNotFoundError ''40191337/BK.QRDG.00.Z.dat'')"
proof -
  have other: "\<not> path_exists (world loaded) (sacdir ''40191337'')"
    by (simp add: path_exists_def loaded_def fresh_def event_disk_def sacdir_def event_dir_def)
  have "cell_condition stub_obspy notebook_params ''40191337''
          (loaded\<lparr>stdout := stdout loaded @ [missing_message ''40191337'']\<rparr>) =
        Inl (FileNotFoundError ''40191337/BK.QRDG.00.Z.dat'')"
    by (simp add: cell4_eval stub_obspy_def notebook_params_def loaded_def
        raw_z_def fresh_def event_disk_def)
  with cell_load_absent [OF other, of stub_obspy] show ?thesis by simp
qed

subsection \<open>Constants of the manifest\<close>

text \<open>
  C10. Every row of the station table of the manifest has \<open>ts = 30\<close>, \<open>npts = 150\<close> and
  \<open>used = 1\<close>, whatever the processing parameters; the table has one row per station; and
  150 is not the 231 that \<open>(time_before + time_after) / dt + 1\<close> gives for the parameters
  of cell 3.
\<close>

theorem df_out_constants:
  "(\<forall>r \<in> set (df_out P rows).
      out_ts r = 30 \<and> out_npts r = 150 \<and> out_used r = 1 \<and>
      of_int (out_npts r) \<noteq>
        (time_before notebook_params + time_after notebook_params) / dt notebook_params + 1) \<and>
   length (df_out P rows) = length rows \<and>
   (time_before notebook_params + time_after notebook_params) / dt notebook_params + 1 = 231"
  by (auto simp add: df_out_def df_out_row_def notebook_params_def)

theorem df_out_constants_witness:
  "map out_ts (df_out notebook_params [qrdg, mccm]) = [30, 30] \<and>
   map out_npts (df_out notebook_params [qrdg, mccm]) = [150, 150] \<and>
   map out_used (df_out notebook_params [qrdg, mccm]) = [1, 1] \<and>
   map out_station (df_out notebook_params [qrdg, mccm]) = [''BK.QRDG.00'', ''BK.MCCM.00'']"
proof -
  have "df_out notebook_params [qrdg, mccm] = [df_out_row notebook_params qrdg, df_out_row notebook_params mccm]"
    by (simp add: df_out_def)
  with df_out_constants [of notebook_params "[qrdg, mccm]"] show ?thesis
    by (simp add: df_out_row_def qrdg_def mccm_def)
qed

end
